theory Spec2Isabelle
  imports Main "HOL-Library.Word" "HOL-Library.Char_ord" "HOL-Library.List_Lexorder"
    "HOL-Library.Multiset"
begin

section \<open>Data model of main.go\<close>

text \<open>
  \<^verbatim>\<open>type Clock int\<close>. Go's \<^verbatim>\<open>int\<close> is a 64-bit two's complement integer on the
  64-bit platforms the repository's Dockerfile builds for; \<^verbatim>\<open>+\<close> wraps around and the
  comparisons \<^verbatim>\<open><\<close>, \<^verbatim>\<open>==\<close> and the builtin \<^verbatim>\<open>max\<close> read the value as signed
  (\<open>sint\<close>).
\<close>

type_synonym Clock = "64 word"

text \<open>\<^verbatim>\<open>type Patch struct { Key string; Value string; Timestamp Clock }\<close>\<close>

record Patch =
  Key :: string
  Value :: string
  Timestamp :: Clock

text \<open>
  \<^verbatim>\<open>type Data struct { Value string; Timestamp Clock }\<close>. The field names are prefixed,
  since \<open>Value\<close> and \<open>Timestamp\<close> are already the fields of \<open>Patch\<close>.
\<close>

record Data =
  Data_Value :: string
  Data_Timestamp :: Clock

text \<open>
  \<^verbatim>\<open>type LWWMap struct { mu sync.Mutex; store map[string]Data; clock Clock;
  nodeID string; replicas []string }\<close>. The mutex is held by \<^verbatim>\<open>Apply\<close> for a whole
  batch and by \<^verbatim>\<open>selectRandomKeys\<close> for a whole call, so each of them is one atomic
  state transformer and the mutex has no field here.
\<close>

record LWWMap =
  store :: "string \<rightharpoonup> Data"
  clock :: Clock
  nodeID :: string
  replicas :: "string list"

definition NewLWWMap :: "string \<Rightarrow> string list \<Rightarrow> LWWMap" where
  "NewLWWMap nid reps =
     \<lparr>store = Map.empty, clock = 0, nodeID = nid, replicas = reps\<rparr>"

section \<open>The merge engine: Apply\<close>

text \<open>Go's builtin \<^verbatim>\<open>max\<close> on two signed integers.\<close>

definition clock_max :: "Clock \<Rightarrow> Clock \<Rightarrow> Clock" where
  "clock_max a b = (if sint a < sint b then b else a)"

text \<open>
  The body of the \<^verbatim>\<open>for _, op := range operations\<close> loop of \<^verbatim>\<open>Apply\<close>, line by line:
  \<^verbatim>\<open>timestamp := m.clock\<close>, the (redundant) reassignment under
  \<^verbatim>\<open>op.Timestamp < 0\<close>, the record \<^verbatim>\<open>value\<close>, the lookup, the three-way branch
  comparing \<^verbatim>\<open>existing.Timestamp\<close> with \<^verbatim>\<open>op.Timestamp\<close>, and the final
  \<^verbatim>\<open>m.clock = max(m.clock, op.Timestamp)\<close>. String comparison \<^verbatim>\<open>op.Value > existing.Value\<close>
  is Go's bytewise lexicographic order, which is the order of \<open>char list\<close> here.
  The two \<^verbatim>\<open>log.Printf\<close> calls write to the log only and are left out.
\<close>

definition apply_op :: "LWWMap \<Rightarrow> Patch \<Rightarrow> LWWMap" where
  "apply_op m op =
     (let timestamp = clock m;
          timestamp = (if sint (Timestamp op) < 0 then clock m else timestamp);
          value = \<lparr>Data_Value = Value op, Data_Timestamp = timestamp\<rparr>;
          m1 = (case store m (Key op) of
                  None \<Rightarrow> m\<lparr>clock := clock m + 1, store := (store m)(Key op \<mapsto> value)\<rparr>
                | Some existing \<Rightarrow>
                    if sint (Data_Timestamp existing) < sint (Timestamp op)
                    then m\<lparr>clock := clock m + 1, store := (store m)(Key op \<mapsto> value)\<rparr>
                    else if Data_Timestamp existing = Timestamp op
                    then (if Value op > Data_Value existing
                          then m\<lparr>store := (store m)(Key op \<mapsto> value), clock := clock m + 1\<rparr>
                          else m)
                    else m)
      in m1\<lparr>clock := clock_max (clock m1) (Timestamp op)\<rparr>)"

text \<open>\<^verbatim>\<open>func (m *LWWMap) Apply(operations []Patch)\<close>: the loop over the batch, in order.\<close>

fun Apply :: "LWWMap \<Rightarrow> Patch list \<Rightarrow> LWWMap" where
  "Apply m [] = m"
| "Apply m (op # operations) = Apply (apply_op m op) operations"

section \<open>The anti-entropy scheduler: selectRandomKeys and sync\<close>

text \<open>
  \<^verbatim>\<open>func (m *LWWMap) selectRandomKeys(k int) []string\<close>. Two things of the Go
  runtime are parameters: \<open>range_store\<close> is the sequence of keys that
  \<^verbatim>\<open>for key := range m.store\<close> produces (every key once, in an order Go leaves
  open), and \<open>shuffle\<close> is the rearrangement that \<^verbatim>\<open>rand.Shuffle\<close> makes of the
  slice. \<^verbatim>\<open>len(m.store)\<close> is the number of keys of the map.
\<close>

definition selectRandomKeys ::
  "LWWMap \<Rightarrow> int \<Rightarrow> string list \<Rightarrow> (string list \<Rightarrow> string list) \<Rightarrow> string list" where
  "selectRandomKeys m k range_store shuffle =
     (if k \<le> 0 \<or> card (dom (store m)) = 0 then []
      else let k = min k (int (card (dom (store m))));
               keys = range_store
           in if k \<ge> int (length keys) then keys
              else take (nat k) (shuffle keys))"

text \<open>The request that \<^verbatim>\<open>http.Post(url, "application/json", body)\<close> sends.\<close>

datatype Post = Post (url: string) (body: "Patch list")

text \<open>
  One iteration of the \<^verbatim>\<open>for\<close> loop of \<^verbatim>\<open>sync\<close>, after the sleep:
  \<^verbatim>\<open>selectRandomKeys(5)\<close>, one Patch per selected key from \<^verbatim>\<open>m.store[key]\<close> (the zero
  \<^verbatim>\<open>Data\<close> for a missing key), a replica drawn with \<^verbatim>\<open>rand.Intn(len(m.replicas))\<close>
  (\<open>r\<close> is the random draw, reduced to the range of \<^verbatim>\<open>Intn\<close>), and the POST of the
  batch. \<^verbatim>\<open>rand.Intn(0)\<close> panics: the result is then \<open>None\<close>. The loop itself never
  ends; the response of the peer is only logged.
\<close>

definition sync_iteration ::
  "LWWMap \<Rightarrow> string list \<Rightarrow> (string list \<Rightarrow> string list) \<Rightarrow> nat \<Rightarrow> Post option" where
  "sync_iteration m range_store shuffle r =
     (let selectedKeys = selectRandomKeys m 5 range_store shuffle;
          operations = map (\<lambda>key.
              let data = (case store m key of
                            Some d \<Rightarrow> d
                          | None \<Rightarrow> \<lparr>Data_Value = [], Data_Timestamp = 0\<rparr>)
              in \<lparr>Key = key, Value = Data_Value data, Timestamp = Data_Timestamp data\<rparr>)
            selectedKeys
      in if length (replicas m) = 0 then None
         else let replica = replicas m ! (r mod length (replicas m));
                  url = ''http://'' @ replica @ ''/patch''
              in Some (Post url operations))"

section \<open>Nodes of the deployment\<close>

text \<open>
  The node \<^verbatim>\<open>replica1\<close> of the repository's compose file, as \<^verbatim>\<open>main\<close> creates it
  from \<^verbatim>\<open>NODE_ID=1\<close> and \<^verbatim>\<open>REPLICAS=replica2:8080,replica3:8080\<close>, and \<^verbatim>\<open>replica2\<close>.
\<close>

definition node1 :: LWWMap where
  "node1 = NewLWWMap ''1'' [''replica2:8080'', ''replica3:8080'']"

definition node2 :: LWWMap where
  "node2 = NewLWWMap ''2'' [''replica1:8080'', ''replica3:8080'']"

text \<open>\<^verbatim>\<open>replica1\<close> after six local writes of the keys \<open>a\<close> to \<open>f\<close>.\<close>

definition six_keys :: LWWMap where
  "six_keys = Apply node1 [\<lparr>Key = ''a'', Value = ''1'', Timestamp = - 1\<rparr>,
                           \<lparr>Key = ''b'', Value = ''2'', Timestamp = - 1\<rparr>,
                           \<lparr>Key = ''c'', Value = ''3'', Timestamp = - 1\<rparr>,
                           \<lparr>Key = ''d'', Value = ''4'', Timestamp = - 1\<rparr>,
                           \<lparr>Key = ''e'', Value = ''5'', Timestamp = - 1\<rparr>,
                           \<lparr>Key = ''f'', Value = ''6'', Timestamp = - 1\<rparr>]"

lemmas run_simps = node1_def node2_def NewLWWMap_def apply_op_def clock_max_def

section \<open>Auxiliary facts\<close>

lemma sint_clock_range: "- (2 ^ 63) \<le> sint (c :: Clock) \<and> sint c < 2 ^ 63"
  using sint_ge [of c] sint_lt [of c] by simp

lemma sint_clock_incr:
  assumes "sint (c :: Clock) < 2 ^ 63 - 1"
  shows "sint (c + 1) = sint c + 1"
proof -
  have "sint (c + 1) = signed_take_bit 63 (sint c + 1)"
    by (simp add: sint_word_ariths)
  also have "\<dots> = sint c + 1"
    using assms sint_clock_range [of c] by (intro signed_take_bit_int_eq_self) auto
  finally show ?thesis .
qed

text \<open>One Patch: below the largest \<^verbatim>\<open>int\<close> the clock does not go down, reaches the
  Patch's timestamp, and goes up by one or to that timestamp at most.\<close>

lemma apply_op_clock:
  assumes "sint (clock m) < 2 ^ 63 - 1"
  shows "sint (clock m) \<le> sint (clock (apply_op m op))"
    and "sint (Timestamp op) \<le> sint (clock (apply_op m op))"
    and "sint (clock (apply_op m op)) \<le> max (sint (clock m) + 1) (sint (Timestamp op))"
  using sint_clock_incr [OF assms]
  by (auto simp: apply_op_def clock_max_def Let_def split: option.splits)

lemma apply_op_stored_below_clock:
  assumes "sint (clock m) < 2 ^ 63 - 1"
    and "\<forall>k d. store m k = Some d \<longrightarrow> sint (Data_Timestamp d) < sint (clock m)"
  shows "\<forall>k d. store (apply_op m op) k = Some d \<longrightarrow>
           sint (Data_Timestamp d) < sint (clock (apply_op m op))"
  using sint_clock_incr [OF assms(1)] assms(2)
  unfolding apply_op_def clock_max_def Let_def
  by (fastforce split: option.splits if_splits)

lemma Apply_append: "Apply m (xs @ ys) = Apply (Apply m xs) ys"
  by (induction xs arbitrary: m) auto

lemma foldl_Apply: "foldl Apply m calls = Apply m (concat calls)"
  by (induction calls arbitrary: m) (auto simp: Apply_append)

text \<open>
  A batch: when the clock and all timestamps of the batch are at most \<open>C\<close> and
  \<open>C\<close> plus the length of the batch stays in range, no increment wraps around.
\<close>

lemma Apply_clock:
  assumes "sint (clock m) \<le> C"
    and "\<forall>op \<in> set ops. sint (Timestamp op) \<le> C"
    and "C + int (length ops) < 2 ^ 63"
  shows "sint (clock m) \<le> sint (clock (Apply m ops)) \<and>
         sint (clock (Apply m ops)) \<le> C + int (length ops) \<and>
         (\<forall>op \<in> set ops. sint (Timestamp op) \<le> sint (clock (Apply m ops)))"
  using assms
proof (induction ops arbitrary: m C)
  case Nil
  then show ?case by simp
next
  case (Cons op ops)
  let ?m' = "apply_op m op"
  have small: "sint (clock m) < 2 ^ 63 - 1"
    using Cons.prems by simp
  have step: "sint (clock m) \<le> sint (clock ?m')"
    "sint (Timestamp op) \<le> sint (clock ?m')"
    "sint (clock ?m') \<le> max (sint (clock m) + 1) (sint (Timestamp op))"
    using apply_op_clock [OF small] by blast+
  have a: "sint (clock ?m') \<le> C + 1"
    using step(3) Cons.prems by (auto simp: max_def split: if_splits)
  have b: "\<forall>op \<in> set ops. sint (Timestamp op) \<le> C + 1"
    using Cons.prems by auto
  have c: "C + 1 + int (length ops) < 2 ^ 63"
    using Cons.prems by simp
  from Cons.IH [OF a b c] step show ?case
    by auto
qed

lemma Apply_stored_below_clock:
  assumes "sint (clock m) \<le> C"
    and "\<forall>op \<in> set ops. sint (Timestamp op) \<le> C"
    and "C + int (length ops) < 2 ^ 63"
    and "\<forall>k d. store m k = Some d \<longrightarrow> sint (Data_Timestamp d) < sint (clock m)"
  shows "\<forall>k d. store (Apply m ops) k = Some d \<longrightarrow>
           sint (Data_Timestamp d) < sint (clock (Apply m ops))"
  using assms
proof (induction ops arbitrary: m C)
  case Nil
  then show ?case by simp
next
  case (Cons op ops)
  let ?m' = "apply_op m op"
  have small: "sint (clock m) < 2 ^ 63 - 1"
    using Cons.prems by simp
  have "sint (clock ?m') \<le> max (sint (clock m) + 1) (sint (Timestamp op))"
    using apply_op_clock [OF small] by blast
  then have a: "sint (clock ?m') \<le> C + 1"
    using Cons.prems by (auto simp: max_def split: if_splits)
  have b: "\<forall>op \<in> set ops. sint (Timestamp op) \<le> C + 1"
    using Cons.prems by auto
  have c: "C + 1 + int (length ops) < 2 ^ 63"
    using Cons.prems by simp
  have d: "\<forall>k d. store ?m' k = Some d \<longrightarrow> sint (Data_Timestamp d) < sint (clock ?m')"
    using apply_op_stored_below_clock [OF small] Cons.prems(4) by blast
  from Cons.IH [OF a b c d] show ?case
    by simp
qed

text \<open>The hypothesis on the timestamps of a run, patch by patch.\<close>

lemma timestamps_in_range:
  assumes "\<forall>ops \<in> set calls. \<forall>op \<in> set ops.
             sint (Timestamp op) + int (length (concat calls)) < 2 ^ 63"
  shows "\<forall>op \<in> set (concat calls).
           sint (Timestamp op) \<le> 2 ^ 63 - 1 - int (length (concat calls))"
proof
  fix op
  assume "op \<in> set (concat calls)"
  then obtain ops where "ops \<in> set calls" and "op \<in> set ops"
    by auto
  with assms have "sint (Timestamp op) + int (length (concat calls)) < 2 ^ 63"
    by blast
  then show "sint (Timestamp op) \<le> 2 ^ 63 - 1 - int (length (concat calls))"
    by simp
qed


text \<open>The keys that \<^verbatim>\<open>selectRandomKeys(5)\<close> returns.\<close>

lemma selectRandomKeys_props:
  assumes d: "distinct ks" and s: "set ks = dom (store m)"
    and p: "mset (shuffle ks) = mset ks"
  shows "length (selectRandomKeys m 5 ks shuffle) = min 5 (card (dom (store m)))"
    and "distinct (selectRandomKeys m 5 ks shuffle)"
    and "set (selectRandomKeys m 5 ks shuffle) \<subseteq> dom (store m)"
proof -
  have c: "card (dom (store m)) = length ks"
    using d s distinct_card by metis
  have l: "length (shuffle ks) = length ks"
    using p by (metis size_mset)
  have ds: "distinct (shuffle ks)"
    using p d by (metis mset_eq_imp_distinct_iff)
  have ss: "set (shuffle ks) = set ks"
    using p by (metis set_mset_mset)
  show "length (selectRandomKeys m 5 ks shuffle) = min 5 (card (dom (store m)))"
    by (auto simp: selectRandomKeys_def c l Let_def)
  show "distinct (selectRandomKeys m 5 ks shuffle)"
    using d ds by (auto simp: selectRandomKeys_def Let_def)
  show "set (selectRandomKeys m 5 ks shuffle) \<subseteq> dom (store m)"
    using s ss by (auto simp: selectRandomKeys_def Let_def dest: in_set_takeD)
qed

section \<open>Stale writes\<close>

text \<open>
  C8. A Patch whose timestamp is strictly less than the timestamp of the record stored
  for its key is rejected silently: the Store is left as it was and the clock becomes
  \<open>max(clock, Patch.timestamp)\<close>; Apply has no error result at all. The rest of the
  batch is then applied to the state in which only the clock has changed.
\<close>

theorem C8_stale_write_rejected:
  assumes "store m (Key op) = Some existing"
    and "sint (Timestamp op) < sint (Data_Timestamp existing)"
  shows "store (Apply m [op]) = store m \<and>
         clock (Apply m [op]) = clock_max (clock m) (Timestamp op) \<and>
         Apply m (op # rest) = Apply (m\<lparr>clock := clock_max (clock m) (Timestamp op)\<rparr>) rest"
proof -
  have "apply_op m op = m\<lparr>clock := clock_max (clock m) (Timestamp op)\<rparr>"
    using assms by (auto simp: apply_op_def)
  then show ?thesis
    by simp
qed

text \<open>
  The scenario of the specification: the store holds \<open>a \<rightarrow> (x, 5)\<close> (here at clock 6,
  reached from the new store by two batches) and the Patch \<open>(a, y, 3)\<close> arrives.
\<close>

theorem C8_stale_write_rejected_witness:
  "store (Apply node1 [\<lparr>Key = ''a'', Value = ''x'', Timestamp = 5\<rparr>,
                       \<lparr>Key = ''a'', Value = ''x'', Timestamp = 6\<rparr>]) ''a''
     = Some \<lparr>Data_Value = ''x'', Data_Timestamp = 5\<rparr> \<and>
   sint (3 :: Clock) < sint (5 :: Clock) \<and>
   store (Apply (Apply node1 [\<lparr>Key = ''a'', Value = ''x'', Timestamp = 5\<rparr>,
                              \<lparr>Key = ''a'', Value = ''x'', Timestamp = 6\<rparr>])
                [\<lparr>Key = ''a'', Value = ''y'', Timestamp = 3\<rparr>])
     = store (Apply node1 [\<lparr>Key = ''a'', Value = ''x'', Timestamp = 5\<rparr>,
                           \<lparr>Key = ''a'', Value = ''x'', Timestamp = 6\<rparr>]) \<and>
   clock (Apply (Apply node1 [\<lparr>Key = ''a'', Value = ''x'', Timestamp = 5\<rparr>,
                              \<lparr>Key = ''a'', Value = ''x'', Timestamp = 6\<rparr>])
                [\<lparr>Key = ''a'', Value = ''y'', Timestamp = 3\<rparr>]) = 6"
proof -
  let ?m = "Apply node1 [\<lparr>Key = ''a'', Value = ''x'', Timestamp = 5\<rparr>,
                         \<lparr>Key = ''a'', Value = ''x'', Timestamp = 6\<rparr>]"
  let ?op = "\<lparr>Key = ''a'', Value = ''y'', Timestamp = 3\<rparr>"
  let ?existing = "\<lparr>Data_Value = ''x'', Data_Timestamp = 5\<rparr>"
  have s: "store ?m (Key ?op) = Some ?existing"
    by (simp add: run_simps)
  have t: "sint (Timestamp ?op) < sint (Data_Timestamp ?existing)"
    by simp
  have c: "clock_max (clock ?m) 3 = 6"
    by (simp add: run_simps)
  show ?thesis
    using C8_stale_write_rejected [OF s t, where rest = "[]"] s c by simp
qed

section \<open>The stored timestamp\<close>

text \<open>
  C4 (evaluation of the code). On the new store the Patch \<open>(a, x, 7)\<close> finds its key
  absent; the record stored carries the clock value 0, not the Patch's timestamp 7,
  and the clock ends at 7. The following Patch \<open>(a, y, 9)\<close> finds the older record and
  is stored with the clock value 7, not 9.
\<close>

theorem C4_accept_stores_clock_value:
  "store (Apply node1 [\<lparr>Key = ''a'', Value = ''x'', Timestamp = 7\<rparr>]) ''a''
     = Some \<lparr>Data_Value = ''x'', Data_Timestamp = 0\<rparr> \<and>
   clock (Apply node1 [\<lparr>Key = ''a'', Value = ''x'', Timestamp = 7\<rparr>]) = 7 \<and>
   store (Apply (Apply node1 [\<lparr>Key = ''a'', Value = ''x'', Timestamp = 7\<rparr>])
                [\<lparr>Key = ''a'', Value = ''y'', Timestamp = 9\<rparr>]) ''a''
     = Some \<lparr>Data_Value = ''y'', Data_Timestamp = 7\<rparr>"
  by (simp add: run_simps)

text \<open>
  C5 (evaluation of the code). After the batch \<open>[(b, w, -1), (a, x, 4)]\<close> the store
  holds \<open>b \<rightarrow> (w, 0)\<close> and the clock is 4. The local write \<open>(b, v, -1)\<close> is then compared
  with its raw timestamp -1, not with the clock value 4, and is dropped: the record of
  \<open>b\<close> stays \<open>(w, 0)\<close>.
\<close>

theorem C5_sentinel_compared_raw:
  "store (Apply node1 [\<lparr>Key = ''b'', Value = ''w'', Timestamp = - 1\<rparr>,
                       \<lparr>Key = ''a'', Value = ''x'', Timestamp = 4\<rparr>]) ''b''
     = Some \<lparr>Data_Value = ''w'', Data_Timestamp = 0\<rparr> \<and>
   clock (Apply node1 [\<lparr>Key = ''b'', Value = ''w'', Timestamp = - 1\<rparr>,
                       \<lparr>Key = ''a'', Value = ''x'', Timestamp = 4\<rparr>]) = 4 \<and>
   store (Apply (Apply node1 [\<lparr>Key = ''b'', Value = ''w'', Timestamp = - 1\<rparr>,
                              \<lparr>Key = ''a'', Value = ''x'', Timestamp = 4\<rparr>])
                [\<lparr>Key = ''b'', Value = ''v'', Timestamp = - 1\<rparr>]) ''b''
     = Some \<lparr>Data_Value = ''w'', Data_Timestamp = 0\<rparr>"
  by (simp add: run_simps)

text \<open>
  C6 (evaluation of the code). The Patches \<open>(a, z, 5)\<close> and \<open>(a, x, 5)\<close> have equal
  timestamps and different values. Applied in this order the surviving value is \<open>x\<close>,
  the lexicographically smaller one; in the other order it is \<open>z\<close>. With
  \<open>a \<rightarrow> (x, 5)\<close> stored at clock 6, the tie-break win of \<open>(a, z, 5)\<close> stores \<open>(z, 6)\<close>.
\<close>

theorem C6_tie_break_depends_on_order:
  "store (Apply node1 [\<lparr>Key = ''a'', Value = ''z'', Timestamp = 5\<rparr>,
                       \<lparr>Key = ''a'', Value = ''x'', Timestamp = 5\<rparr>]) ''a''
     = Some \<lparr>Data_Value = ''x'', Data_Timestamp = 5\<rparr> \<and>
   store (Apply node1 [\<lparr>Key = ''a'', Value = ''x'', Timestamp = 5\<rparr>,
                       \<lparr>Key = ''a'', Value = ''z'', Timestamp = 5\<rparr>]) ''a''
     = Some \<lparr>Data_Value = ''z'', Data_Timestamp = 5\<rparr> \<and>
   store (Apply node1 [\<lparr>Key = ''a'', Value = ''x'', Timestamp = 5\<rparr>,
                       \<lparr>Key = ''a'', Value = ''x'', Timestamp = 6\<rparr>]) ''a''
     = Some \<lparr>Data_Value = ''x'', Data_Timestamp = 5\<rparr> \<and>
   store (Apply (Apply node1 [\<lparr>Key = ''a'', Value = ''x'', Timestamp = 5\<rparr>,
                              \<lparr>Key = ''a'', Value = ''x'', Timestamp = 6\<rparr>])
                [\<lparr>Key = ''a'', Value = ''z'', Timestamp = 5\<rparr>]) ''a''
     = Some \<lparr>Data_Value = ''z'', Data_Timestamp = 6\<rparr>"
  by (simp add: run_simps)

section \<open>Merging batches\<close>

text \<open>
  C1 (evaluation of the code). On the new store the batch \<open>[(a, x, 5)]\<close> applied once
  leaves \<open>a \<rightarrow> (x, 0)\<close>; applied twice it leaves \<open>a \<rightarrow> (x, 5)\<close>.
\<close>

theorem C1_batch_twice_differs:
  "store (Apply node1 [\<lparr>Key = ''a'', Value = ''x'', Timestamp = 5\<rparr>]) ''a''
     = Some \<lparr>Data_Value = ''x'', Data_Timestamp = 0\<rparr> \<and>
   store (Apply (Apply node1 [\<lparr>Key = ''a'', Value = ''x'', Timestamp = 5\<rparr>])
                [\<lparr>Key = ''a'', Value = ''x'', Timestamp = 5\<rparr>]) ''a''
     = Some \<lparr>Data_Value = ''x'', Data_Timestamp = 5\<rparr>"
  by (simp add: run_simps)

text \<open>
  C2 (evaluation of the code). With \<open>P1 = (a, x, 5)\<close>, \<open>P2 = (b, y, 1)\<close> and
  \<open>P3 = (a, w, 3)\<close>, the batches \<open>[P1, P2]\<close> then \<open>[P3]\<close> leave \<open>a \<rightarrow> (w, 6)\<close>, and
  \<open>[P3]\<close> then \<open>[P1, P2]\<close> leave \<open>a \<rightarrow> (x, 3)\<close>.
\<close>

theorem C2_batch_order_matters:
  "store (Apply (Apply node1 [\<lparr>Key = ''a'', Value = ''x'', Timestamp = 5\<rparr>,
                              \<lparr>Key = ''b'', Value = ''y'', Timestamp = 1\<rparr>])
                [\<lparr>Key = ''a'', Value = ''w'', Timestamp = 3\<rparr>]) ''a''
     = Some \<lparr>Data_Value = ''w'', Data_Timestamp = 6\<rparr> \<and>
   store (Apply (Apply node1 [\<lparr>Key = ''a'', Value = ''w'', Timestamp = 3\<rparr>])
                [\<lparr>Key = ''a'', Value = ''x'', Timestamp = 5\<rparr>,
                 \<lparr>Key = ''b'', Value = ''y'', Timestamp = 1\<rparr>]) ''a''
     = Some \<lparr>Data_Value = ''x'', Data_Timestamp = 3\<rparr>"
  by (simp add: run_simps)

text \<open>
  C3 (evaluation of the code). Two new stores receive the same two Patches
  \<open>P = (k, v1, 2)\<close> and \<open>Q = (k, v2, 7)\<close>: the first as \<open>[P]\<close>, \<open>[Q]\<close>, \<open>[P]\<close> (one
  duplicate), the second as \<open>[Q]\<close>, \<open>[P]\<close>. The first ends with \<open>k \<rightarrow> (v2, 2)\<close>, the
  second with \<open>k \<rightarrow> (v1, 7)\<close>.
\<close>

theorem C3_two_stores_diverge:
  "store (Apply (Apply (Apply node1 [\<lparr>Key = ''k'', Value = ''v1'', Timestamp = 2\<rparr>])
                       [\<lparr>Key = ''k'', Value = ''v2'', Timestamp = 7\<rparr>])
                [\<lparr>Key = ''k'', Value = ''v1'', Timestamp = 2\<rparr>]) ''k''
     = Some \<lparr>Data_Value = ''v2'', Data_Timestamp = 2\<rparr> \<and>
   store (Apply (Apply node2 [\<lparr>Key = ''k'', Value = ''v2'', Timestamp = 7\<rparr>])
                [\<lparr>Key = ''k'', Value = ''v1'', Timestamp = 2\<rparr>]) ''k''
     = Some \<lparr>Data_Value = ''v1'', Data_Timestamp = 7\<rparr>"
  by (simp add: run_simps)

section \<open>The clock\<close>

text \<open>
  C7 (as amended). Start from a new store and make any sequence of Apply calls in which
  the number of Patches, and every timestamp passed in plus that number, stay below
  \<open>2^63\<close>, so that no \<^verbatim>\<open>m.clock++\<close> can wrap around. Then the final clock is at least
  every timestamp passed in, and the clock after each call is at least the clock before
  it.
\<close>

theorem C7_clock_monotone_in_range:
  fixes calls :: "Patch list list"
  assumes n: "int (length (concat calls)) < 2 ^ 63"
    and t: "\<forall>ops \<in> set calls. \<forall>op \<in> set ops.
              sint (Timestamp op) + int (length (concat calls)) < 2 ^ 63"
  shows "(\<forall>ops \<in> set calls. \<forall>op \<in> set ops.
            sint (Timestamp op) \<le> sint (clock (foldl Apply (NewLWWMap nid reps) calls))) \<and>
         (\<forall>i < length calls.
            sint (clock (foldl Apply (NewLWWMap nid reps) (take i calls)))
              \<le> sint (clock (foldl Apply (NewLWWMap nid reps) (take (Suc i) calls))))"
proof -
  let ?m0 = "NewLWWMap nid reps"
  let ?N = "int (length (concat calls))"
  define T where "T = 2 ^ 63 - 1 - ?N"
  have T0: "0 \<le> T" using n by (simp add: T_def)
  have m0: "sint (clock ?m0) \<le> T" using T0 by (simp add: NewLWWMap_def)
  have ts: "\<forall>op \<in> set (concat calls). sint (Timestamp op) \<le> T"
    using timestamps_in_range [OF t] by (simp add: T_def)
  have rng: "T + ?N < 2 ^ 63" by (simp add: T_def)
  have all: "\<forall>op \<in> set (concat calls). sint (Timestamp op) \<le> sint (clock (Apply ?m0 (concat calls)))"
    using Apply_clock [OF m0 ts rng] by blast
  have mono: "sint (clock (foldl Apply ?m0 (take i calls)))
                \<le> sint (clock (foldl Apply ?m0 (take (Suc i) calls)))"
    if i: "i < length calls" for i
  proof -
    let ?pre = "concat (take i calls)"
    let ?b = "calls ! i"
    have split: "concat calls = ?pre @ ?b @ concat (drop (Suc i) calls)"
      using i by (metis append_take_drop_id concat_append Cons_nth_drop_Suc concat.simps(2))
    have "length (concat calls) = length (?pre @ ?b @ concat (drop (Suc i) calls))"
      using split by simp
    then have len: "int (length ?pre) + int (length ?b) \<le> ?N"
      by simp
    have sub1: "set ?pre \<subseteq> set (concat calls)"
      by (auto dest: in_set_takeD)
    have "?b \<in> set calls"
      using i by simp
    then have sub2: "set ?b \<subseteq> set (concat calls)"
      by auto
    have tp: "\<forall>op \<in> set ?pre. sint (Timestamp op) \<le> T" using ts sub1 by blast
    have rp: "T + int (length ?pre) < 2 ^ 63" using rng len by simp
    have cp: "sint (clock (Apply ?m0 ?pre)) \<le> T + int (length ?pre)"
      using Apply_clock [OF m0 tp rp] by blast
    have tb: "\<forall>op \<in> set ?b. sint (Timestamp op) \<le> T + int (length ?pre)"
      using ts sub2 by fastforce
    have rb: "T + int (length ?pre) + int (length ?b) < 2 ^ 63" using rng len by simp
    have "sint (clock (Apply ?m0 ?pre)) \<le> sint (clock (Apply (Apply ?m0 ?pre) ?b))"
      using Apply_clock [OF cp tb rb] by blast
    moreover have "take (Suc i) calls = take i calls @ [?b]"
      using i by (simp add: take_Suc_conv_app_nth)
    ultimately show ?thesis
      by (simp add: foldl_Apply Apply_append)
  qed
  show ?thesis
    using all mono by (auto simp: foldl_Apply)
qed

text \<open>
  Two calls, \<open>[(a, x, 5)]\<close> and \<open>[(a, y, 3), (b, z, -1)]\<close>: the clock goes from 0 to 5
  to 7.
\<close>

theorem C7_clock_monotone_in_range_witness:
  "int (length (concat [[\<lparr>Key = ''a'', Value = ''x'', Timestamp = 5\<rparr>],
                        [\<lparr>Key = ''a'', Value = ''y'', Timestamp = 3\<rparr>,
                         \<lparr>Key = ''b'', Value = ''z'', Timestamp = - 1\<rparr>]])) < 2 ^ 63 \<and>
   sint (5 :: Clock) + 3 < 2 ^ 63 \<and> sint (3 :: Clock) + 3 < 2 ^ 63 \<and>
   sint (- 1 :: Clock) + 3 < 2 ^ 63 \<and>
   sint (5 :: Clock) \<le> sint (clock (foldl Apply node1
           [[\<lparr>Key = ''a'', Value = ''x'', Timestamp = 5\<rparr>],
            [\<lparr>Key = ''a'', Value = ''y'', Timestamp = 3\<rparr>,
             \<lparr>Key = ''b'', Value = ''z'', Timestamp = - 1\<rparr>]])) \<and>
   sint (3 :: Clock) \<le> sint (clock (foldl Apply node1
           [[\<lparr>Key = ''a'', Value = ''x'', Timestamp = 5\<rparr>],
            [\<lparr>Key = ''a'', Value = ''y'', Timestamp = 3\<rparr>,
             \<lparr>Key = ''b'', Value = ''z'', Timestamp = - 1\<rparr>]])) \<and>
   sint (- 1 :: Clock) \<le> sint (clock (foldl Apply node1
           [[\<lparr>Key = ''a'', Value = ''x'', Timestamp = 5\<rparr>],
            [\<lparr>Key = ''a'', Value = ''y'', Timestamp = 3\<rparr>,
             \<lparr>Key = ''b'', Value = ''z'', Timestamp = - 1\<rparr>]])) \<and>
   sint (clock (foldl Apply node1 []))
     \<le> sint (clock (foldl Apply node1 [[\<lparr>Key = ''a'', Value = ''x'', Timestamp = 5\<rparr>]])) \<and>
   sint (clock (foldl Apply node1 [[\<lparr>Key = ''a'', Value = ''x'', Timestamp = 5\<rparr>]]))
     \<le> sint (clock (foldl Apply node1
           [[\<lparr>Key = ''a'', Value = ''x'', Timestamp = 5\<rparr>],
            [\<lparr>Key = ''a'', Value = ''y'', Timestamp = 3\<rparr>,
             \<lparr>Key = ''b'', Value = ''z'', Timestamp = - 1\<rparr>]])) \<and>
   clock (foldl Apply node1 [[\<lparr>Key = ''a'', Value = ''x'', Timestamp = 5\<rparr>]]) = 5 \<and>
   clock (foldl Apply node1
           [[\<lparr>Key = ''a'', Value = ''x'', Timestamp = 5\<rparr>],
            [\<lparr>Key = ''a'', Value = ''y'', Timestamp = 3\<rparr>,
             \<lparr>Key = ''b'', Value = ''z'', Timestamp = - 1\<rparr>]]) = 7"
proof -
  let ?c1 = "[\<lparr>Key = ''a'', Value = ''x'', Timestamp = 5\<rparr>]"
  let ?c2 = "[\<lparr>Key = ''a'', Value = ''y'', Timestamp = 3\<rparr>,
              \<lparr>Key = ''b'', Value = ''z'', Timestamp = - 1\<rparr>]"
  let ?calls = "[?c1, ?c2]"
  have n: "int (length (concat ?calls)) < 2 ^ 63"
    by simp
  have t: "\<forall>ops \<in> set ?calls. \<forall>op \<in> set ops.
             sint (Timestamp op) + int (length (concat ?calls)) < 2 ^ 63"
    by simp
  have c1: "clock (foldl Apply node1 [?c1]) = 5"
    by (simp add: run_simps)
  have c2: "clock (foldl Apply node1 ?calls) = 7"
    by (simp add: run_simps)
  note run = C7_clock_monotone_in_range
    [OF n t, of "''1''" "[''replica2:8080'', ''replica3:8080'']", folded node1_def]
  have "\<forall>ops \<in> set ?calls. \<forall>op \<in> set ops.
          sint (Timestamp op) \<le> sint (clock (foldl Apply node1 ?calls))"
    using run by (rule conjunct1)
  then have ts: "sint (5 :: Clock) \<le> sint (clock (foldl Apply node1 ?calls))"
    "sint (3 :: Clock) \<le> sint (clock (foldl Apply node1 ?calls))"
    "sint (- 1 :: Clock) \<le> sint (clock (foldl Apply node1 ?calls))"
    by simp_all
  have t': "sint (5 :: Clock) + 3 < 2 ^ 63" "sint (3 :: Clock) + 3 < 2 ^ 63"
    "sint (- 1 :: Clock) + 3 < 2 ^ 63"
    by simp_all
  have mono: "\<forall>i < length ?calls.
                sint (clock (foldl Apply node1 (take i ?calls)))
                  \<le> sint (clock (foldl Apply node1 (take (Suc i) ?calls)))"
    using run by (rule conjunct2)
  have m0: "sint (clock (foldl Apply node1 [])) \<le> sint (clock (foldl Apply node1 [?c1]))"
    using mono [rule_format, of 0] by simp
  have m1: "sint (clock (foldl Apply node1 [?c1])) \<le> sint (clock (foldl Apply node1 ?calls))"
    using mono [rule_format, of 1] by simp
  from n t' ts m0 m1 c1 c2 show ?thesis
    by blast
qed

text \<open>
  C7 as stated fails where the clock wraps. The call \<open>[(a, x, 2^63 - 1)]\<close> raises the
  clock to the largest \<^verbatim>\<open>int\<close>; the next call \<open>[(b, y, 0)]\<close> stores a new key,
  \<^verbatim>\<open>m.clock++\<close> wraps to the smallest \<^verbatim>\<open>int\<close>, and \<^verbatim>\<open>max\<close> leaves the clock at 0:
  below its value after the first call, and below a timestamp that was passed in.
\<close>

theorem C7_clock_wraps_counterexample:
  "clock (foldl Apply node1
            [[\<lparr>Key = ''a'', Value = ''x'', Timestamp = 9223372036854775807\<rparr>]])
     = 9223372036854775807 \<and>
   clock (foldl Apply node1
            [[\<lparr>Key = ''a'', Value = ''x'', Timestamp = 9223372036854775807\<rparr>],
             [\<lparr>Key = ''b'', Value = ''y'', Timestamp = 0\<rparr>]]) = 0 \<and>
   \<not> sint (clock (foldl Apply node1
            [[\<lparr>Key = ''a'', Value = ''x'', Timestamp = 9223372036854775807\<rparr>]]))
       \<le> sint (clock (foldl Apply node1
            [[\<lparr>Key = ''a'', Value = ''x'', Timestamp = 9223372036854775807\<rparr>],
             [\<lparr>Key = ''b'', Value = ''y'', Timestamp = 0\<rparr>]])) \<and>
   \<not> sint (9223372036854775807 :: Clock)
       \<le> sint (clock (foldl Apply node1
            [[\<lparr>Key = ''a'', Value = ''x'', Timestamp = 9223372036854775807\<rparr>],
             [\<lparr>Key = ''b'', Value = ''y'', Timestamp = 0\<rparr>]]))"
  by (simp add: run_simps)

text \<open>
  C10 (as amended). Start from the store that \<^verbatim>\<open>NewLWWMap\<close> creates and make any
  sequence of Apply calls in which the number of Patches, and every timestamp passed in
  plus that number, stay below \<open>2^63\<close>. Then every record in the Store has a timestamp
  strictly below the clock.
\<close>

theorem C10_stored_timestamp_below_clock:
  fixes calls :: "Patch list list"
  assumes n: "int (length (concat calls)) < 2 ^ 63"
    and t: "\<forall>ops \<in> set calls. \<forall>op \<in> set ops.
              sint (Timestamp op) + int (length (concat calls)) < 2 ^ 63"
    and s: "store (foldl Apply (NewLWWMap nid reps) calls) k = Some d"
  shows "sint (Data_Timestamp d) < sint (clock (foldl Apply (NewLWWMap nid reps) calls))"
proof -
  let ?m0 = "NewLWWMap nid reps"
  let ?N = "int (length (concat calls))"
  define T where "T = 2 ^ 63 - 1 - ?N"
  have T0: "0 \<le> T" using n by (simp add: T_def)
  have m0: "sint (clock ?m0) \<le> T" using T0 by (simp add: NewLWWMap_def)
  have ts: "\<forall>op \<in> set (concat calls). sint (Timestamp op) \<le> T"
    using timestamps_in_range [OF t] by (simp add: T_def)
  have rng: "T + ?N < 2 ^ 63" by (simp add: T_def)
  have init: "\<forall>k d. store ?m0 k = Some d \<longrightarrow> sint (Data_Timestamp d) < sint (clock ?m0)"
    by (simp add: NewLWWMap_def)
  show ?thesis
    using Apply_stored_below_clock [OF m0 ts rng init] s by (simp add: foldl_Apply)
qed


text \<open>
  After \<open>[(a, x, 5)]\<close> and \<open>[(b, z, -1)]\<close> the record of \<open>b\<close> is \<open>(z, 5)\<close> and the clock
  is 6.
\<close>

theorem C10_stored_timestamp_below_clock_witness:
  "int (length (concat [[\<lparr>Key = ''a'', Value = ''x'', Timestamp = 5\<rparr>],
                        [\<lparr>Key = ''b'', Value = ''z'', Timestamp = - 1\<rparr>]])) < 2 ^ 63 \<and>
   store (foldl Apply node1 [[\<lparr>Key = ''a'', Value = ''x'', Timestamp = 5\<rparr>],
                             [\<lparr>Key = ''b'', Value = ''z'', Timestamp = - 1\<rparr>]]) ''b''
     = Some \<lparr>Data_Value = ''z'', Data_Timestamp = 5\<rparr> \<and>
   sint (5 :: Clock)
     < sint (clock (foldl Apply node1 [[\<lparr>Key = ''a'', Value = ''x'', Timestamp = 5\<rparr>],
                                       [\<lparr>Key = ''b'', Value = ''z'', Timestamp = - 1\<rparr>]]))"
proof -
  let ?calls = "[[\<lparr>Key = ''a'', Value = ''x'', Timestamp = 5\<rparr>],
                 [\<lparr>Key = ''b'', Value = ''z'', Timestamp = - 1\<rparr>]]"
  let ?d = "\<lparr>Data_Value = ''z'', Data_Timestamp = 5\<rparr>"
  have n: "int (length (concat ?calls)) < 2 ^ 63"
    by simp
  have t: "\<forall>ops \<in> set ?calls. \<forall>op \<in> set ops.
             sint (Timestamp op) + int (length (concat ?calls)) < 2 ^ 63"
    by simp
  have s: "store (foldl Apply (NewLWWMap ''1'' [''replica2:8080'', ''replica3:8080'']) ?calls) ''b''
             = Some ?d"
    by (simp add: run_simps)
  from C10_stored_timestamp_below_clock [OF n t s]
  have "sint (Data_Timestamp ?d) < sint (clock (foldl Apply node1 ?calls))"
    unfolding node1_def .
  with n s show ?thesis
    unfolding node1_def by simp
qed

text \<open>
  C10 as stated fails where the clock wraps. In the batch \<open>[(k, v, 2^63 - 1), (j, w, 1)]\<close>
  the second Patch is stored with the clock value \<open>2^63 - 1\<close> captured before
  \<^verbatim>\<open>m.clock++\<close> wraps around, and the batch ends with the clock at 1.
\<close>

theorem C10_stored_timestamp_above_clock_counterexample:
  "store (Apply node1 [\<lparr>Key = ''k'', Value = ''v'', Timestamp = 9223372036854775807\<rparr>,
                       \<lparr>Key = ''j'', Value = ''w'', Timestamp = 1\<rparr>]) ''j''
     = Some \<lparr>Data_Value = ''w'', Data_Timestamp = 9223372036854775807\<rparr> \<and>
   clock (Apply node1 [\<lparr>Key = ''k'', Value = ''v'', Timestamp = 9223372036854775807\<rparr>,
                       \<lparr>Key = ''j'', Value = ''w'', Timestamp = 1\<rparr>]) = 1 \<and>
   \<not> sint (9223372036854775807 :: Clock)
       < sint (clock (Apply node1
            [\<lparr>Key = ''k'', Value = ''v'', Timestamp = 9223372036854775807\<rparr>,
             \<lparr>Key = ''j'', Value = ''w'', Timestamp = 1\<rparr>]))"
  by (simp add: run_simps)

section \<open>The gossip snapshot\<close>

text \<open>
  C9 (as amended). Let \<open>range_store\<close> enumerate the keys of the Store, each once, let
  \<open>shuffle\<close> rearrange it, and let the node have a peer. One iteration of \<^verbatim>\<open>sync\<close> then
  posts, to the peer drawn, one Patch for each selected key: \<open>min(5, number of keys)\<close>
  distinct keys of the Store, all keys when the Store has fewer than 5, and the empty
  batch when the Store is empty: the POST is made even then.
\<close>

theorem C9_snapshot_selection:
  assumes d: "distinct range_store"
    and s: "set range_store = dom (store m)"
    and p: "mset (shuffle range_store) = mset range_store"
    and r: "replicas m \<noteq> []"
  shows "\<exists>ops.
           sync_iteration m range_store shuffle r
             = Some (Post (''http://'' @ replicas m ! (r mod length (replicas m)) @ ''/patch'') ops) \<and>
           map Key ops = selectRandomKeys m 5 range_store shuffle \<and>
           length ops = min 5 (card (dom (store m))) \<and>
           distinct (map Key ops) \<and>
           set (map Key ops) \<subseteq> dom (store m) \<and>
           (card (dom (store m)) < 5 \<longrightarrow> set (map Key ops) = dom (store m)) \<and>
           (dom (store m) = {} \<longrightarrow> ops = [])"
proof -
  define keys where "keys = selectRandomKeys m 5 range_store shuffle"
  define ops where "ops = map (\<lambda>key.
              let data = (case store m key of
                            Some d \<Rightarrow> d
                          | None \<Rightarrow> \<lparr>Data_Value = [], Data_Timestamp = 0\<rparr>)
              in \<lparr>Key = key, Value = Data_Value data, Timestamp = Data_Timestamp data\<rparr>) keys"
  have run: "sync_iteration m range_store shuffle r
      = Some (Post (''http://'' @ replicas m ! (r mod length (replicas m)) @ ''/patch'') ops)"
    using r by (simp add: sync_iteration_def Let_def ops_def keys_def)
  have keys: "map Key ops = keys"
    by (simp add: ops_def o_def Let_def)
  have len: "length keys = min 5 (card (dom (store m)))"
    and dis: "distinct keys"
    and sub: "set keys \<subseteq> dom (store m)"
    unfolding keys_def
    using selectRandomKeys_props [where shuffle = shuffle, OF d s p] by blast+
  have fin: "finite (dom (store m))"
    using s by (metis List.finite_set)
  have all: "set keys = dom (store m)" if "card (dom (store m)) < 5"
  proof -
    have "card (set keys) = card (dom (store m))"
      using that len dis by (simp add: distinct_card)
    then show ?thesis
      using sub fin by (simp add: card_subset_eq)
  qed
  have none: "ops = []" if "dom (store m) = {}"
    using that len by (simp add: ops_def)
  have lo: "length ops = min 5 (card (dom (store m)))"
    using len by (simp add: ops_def)
  show ?thesis
    unfolding keys_def [symmetric]
    using run keys dis sub all none lo by (intro exI [of _ ops]) simp
qed

text \<open>
  Six keys enumerated as \<open>c, a, f, b, e, d\<close> and shuffled by reversal: five of them are
  posted to \<^verbatim>\<open>replica3\<close>. The empty store of \<open>node1\<close>: the empty batch is posted to
  \<^verbatim>\<open>replica2\<close>.
\<close>

theorem C9_snapshot_selection_witness:
  "distinct [''c'', ''a'', ''f'', ''b'', ''e'', ''d''] \<and>
   set [''c'', ''a'', ''f'', ''b'', ''e'', ''d''] = dom (store six_keys) \<and>
   mset (rev [''c'', ''a'', ''f'', ''b'', ''e'', ''d''])
     = mset [''c'', ''a'', ''f'', ''b'', ''e'', ''d''] \<and>
   replicas six_keys \<noteq> [] \<and>
   (\<exists>ops. sync_iteration six_keys [''c'', ''a'', ''f'', ''b'', ''e'', ''d''] rev 1
             = Some (Post ''http://replica3:8080/patch'' ops) \<and>
          map Key ops = [''d'', ''e'', ''b'', ''f'', ''a''] \<and>
          length ops = 5) \<and>
   dom (store node1) = {} \<and>
   replicas node1 \<noteq> [] \<and>
   sync_iteration node1 [] rev 0 = Some (Post ''http://replica2:8080/patch'' [])"
proof -
  let ?ks = "[''c'', ''a'', ''f'', ''b'', ''e'', ''d'']"
  have st: "store six_keys = [''a'' \<mapsto> \<lparr>Data_Value = ''1'', Data_Timestamp = 0\<rparr>,
                              ''b'' \<mapsto> \<lparr>Data_Value = ''2'', Data_Timestamp = 1\<rparr>,
                              ''c'' \<mapsto> \<lparr>Data_Value = ''3'', Data_Timestamp = 2\<rparr>,
                              ''d'' \<mapsto> \<lparr>Data_Value = ''4'', Data_Timestamp = 3\<rparr>,
                              ''e'' \<mapsto> \<lparr>Data_Value = ''5'', Data_Timestamp = 4\<rparr>,
                              ''f'' \<mapsto> \<lparr>Data_Value = ''6'', Data_Timestamp = 5\<rparr>]"
    by (simp add: six_keys_def run_simps)
  have rp: "replicas six_keys = [''replica2:8080'', ''replica3:8080'']"
    by (simp add: six_keys_def run_simps)
  have d: "distinct ?ks"
    by simp
  have s: "set ?ks = dom (store six_keys)"
    unfolding st by auto
  have p: "mset (rev ?ks) = mset ?ks"
    by simp
  have r: "replicas six_keys \<noteq> []"
    unfolding rp by simp
  have c: "card (dom (store six_keys)) = 6"
    unfolding st by simp
  have k: "selectRandomKeys six_keys 5 ?ks rev = [''d'', ''e'', ''b'', ''f'', ''a'']"
    unfolding selectRandomKeys_def c by simp
  from C9_snapshot_selection [where shuffle = rev and r = 1, OF d s p r]
  have six: "\<exists>ops. sync_iteration six_keys ?ks rev 1
                     = Some (Post ''http://replica3:8080/patch'' ops) \<and>
                   map Key ops = [''d'', ''e'', ''b'', ''f'', ''a''] \<and> length ops = 5"
    unfolding k c rp by auto
  have e: "dom (store node1) = {}"
    by (simp add: node1_def NewLWWMap_def)
  have d0: "distinct ([] :: string list)" and s0: "set [] = dom (store node1)"
    and p0: "mset (rev ([] :: string list)) = mset []" and r0: "replicas node1 \<noteq> []"
    by (simp_all add: node1_def NewLWWMap_def)
  from C9_snapshot_selection [where shuffle = rev and r = 0, OF d0 s0 p0 r0] e
  have run0: "sync_iteration node1 [] rev 0 = Some (Post ''http://replica2:8080/patch'' [])"
    by (auto simp: node1_def NewLWWMap_def)
  from d s p r six e r0 run0 show ?thesis
    by blast
qed

text \<open>
  C9 as stated fails at the empty Store: the iteration does not stop there, it builds
  the empty batch and posts it to a peer.
\<close>

theorem C9_empty_store_posts_counterexample:
  "dom (store node1) = {} \<and>
   sync_iteration node1 [] rev 0 = Some (Post ''http://replica2:8080/patch'' [])"
  by (simp add: sync_iteration_def selectRandomKeys_def node1_def NewLWWMap_def)

end
